theory Spec2Isabelle
  imports Complex_Main
begin

section \<open>Parsed JSON values\<close>

text \<open>
  The value \<^verbatim>\<open>JSON.parse\<close> returns. Numbers are IEEE doubles in the source; no schema of
  the repository looks inside a number, so their representation is the type parameter
  \<open>'n\<close>. An object is the list of its own properties in insertion order; a property
  is read with \<open>map_of\<close>, and reading an absent key gives \<open>None\<close> (JavaScript's
  \<^verbatim>\<open>undefined\<close>).
\<close>

datatype 'n json =
    JNull
  | JBool bool
  | JNum 'n
  | JStr string
  | JArr "'n json list"
  | JObj "(string \<times> 'n json) list"

section \<open>The validation library\<close>

text \<open>
  The schema combinators of the validation library the repository calls (\<^verbatim>\<open>z.string\<close>,
  \<^verbatim>\<open>z.enum\<close>, \<^verbatim>\<open>z.array(...).min\<close>, \<^verbatim>\<open>z.object\<close>, \<^verbatim>\<open>safeParse\<close>), after the library's
  documented behaviour. A schema applied to a path and a possibly absent value returns
  either the issues it raised or the validated output value. An issue keeps its code
  and the path of the value it is about; the message, \<^verbatim>\<open>expected\<close> and \<^verbatim>\<open>received\<close>
  are left out. An object schema checks every key of its shape, collects the issues of
  all of them, and its output holds the keys of the shape only: unknown keys of the input
  are stripped (the library's default for \<^verbatim>\<open>z.object\<close>).
\<close>

datatype path_elem = Key string | Idx nat

datatype issue_code = invalid_type | invalid_enum_value | too_small

record issue =
  code :: issue_code
  path :: "path_elem list"

type_synonym 'n zod_type = "path_elem list \<Rightarrow> 'n json option \<Rightarrow> issue list + 'n json"

definition z_string :: "'n zod_type" where
  "z_string p d =
     (case d of
        Some (JStr s) \<Rightarrow> Inr (JStr s)
      | _ \<Rightarrow> Inl [\<lparr>code = invalid_type, path = p\<rparr>])"

definition z_enum :: "string list \<Rightarrow> 'n zod_type" where
  "z_enum vals p d =
     (case d of
        Some (JStr s) \<Rightarrow>
          if s \<in> set vals then Inr (JStr s)
          else Inl [\<lparr>code = invalid_enum_value, path = p\<rparr>]
      | _ \<Rightarrow> Inl [\<lparr>code = invalid_type, path = p\<rparr>])"

text \<open>
  Merging the results of the parts of an array or an object: the whole is valid only
  when every part is, and the issues of all parts are kept, in order.
\<close>

fun merge_results :: "('k \<times> (issue list + 'v)) list \<Rightarrow> issue list + ('k \<times> 'v) list" where
  "merge_results [] = Inr []"
| "merge_results ((k, r) # rest) =
     (case r of
        Inr v \<Rightarrow> (case merge_results rest of
                    Inr vs \<Rightarrow> Inr ((k, v) # vs)
                  | Inl is \<Rightarrow> Inl is)
      | Inl is \<Rightarrow> (case merge_results rest of
                    Inr vs \<Rightarrow> Inl is
                  | Inl is' \<Rightarrow> Inl (is @ is')))"

definition z_array_min :: "'n zod_type \<Rightarrow> nat \<Rightarrow> 'n zod_type" where
  \<comment> \<open>\<^verbatim>\<open>z.array(elem).min(m)\<close>\<close>
  "z_array_min elem m p d =
     (case d of
        Some (JArr xs) \<Rightarrow>
          (let small = (if length xs < m then [\<lparr>code = too_small, path = p\<rparr>] else []);
               parts = merge_results
                         (map (\<lambda>(i, x). (i, elem (p @ [Idx i]) (Some x))) (enumerate 0 xs))
           in case parts of
                Inr vs \<Rightarrow> if small = [] then Inr (JArr (map snd vs)) else Inl small
              | Inl is \<Rightarrow> Inl (small @ is))
      | _ \<Rightarrow> Inl [\<lparr>code = invalid_type, path = p\<rparr>])"

definition z_object :: "(string \<times> 'n zod_type) list \<Rightarrow> 'n zod_type" where
  "z_object shape p d =
     (case d of
        Some (JObj kvs) \<Rightarrow>
          (case merge_results
                  (map (\<lambda>(k, t). (k, t (p @ [Key k]) (map_of kvs k))) shape) of
             Inr out \<Rightarrow> Inr (JObj out)
           | Inl is \<Rightarrow> Inl is)
      | _ \<Rightarrow> Inl [\<lparr>code = invalid_type, path = p\<rparr>])"

definition safeParse :: "'n zod_type \<Rightarrow> 'n json \<Rightarrow> issue list + 'n json" where
  \<comment> \<open>\<open>Inr data\<close> is \<^verbatim>\<open>{success: true, data}\<close>, \<open>Inl issues\<close> is \<^verbatim>\<open>{success: false, error}\<close>\<close>
  "safeParse schema data = schema [] (Some data)"

section \<open>validateDataset.ts\<close>

definition brief_shape :: "(string \<times> 'n zod_type) list" where
  \<comment> \<open>the object literal given to \<^verbatim>\<open>z.object\<close>\<close>
  "brief_shape =
     [(''level'', z_enum [''junior'', ''intermediate'', ''senior'']),
      (''domain'', z_string),
      (''tech_focus'', z_enum [''frontend'', ''backend'', ''fullstack'']),
      (''stack'', z_array_min z_string 1),
      (''duration'', z_string),
      (''brief'', z_string),
      (''business_problem'', z_string),
      (''target_users'', z_string),
      (''goals'', z_array_min z_string 1),
      (''deliverables'', z_array_min z_string 1),
      (''assessment_criteria'', z_string),
      (''company_size'', z_enum [''Startup'', ''SME'', ''Large Enterprise'']),
      (''complexity'', z_enum [''low'', ''medium'', ''high''])]"

definition briefSchema :: "'n zod_type" where
  "briefSchema = z_object brief_shape"

definition DATASET_PATH :: string where
  "DATASET_PATH = ''src/briefs_dataset.json''"

text \<open>
  Exceptions. \<open>Thrown\<close> is an exception raised by code outside the repository (the file
  system, \<^verbatim>\<open>JSON.parse\<close>, the network); every other constructor is one
  \<^verbatim>\<open>new Error(...)\<close> of the source, with the interpolated part of its message as argument.
\<close>

datatype js_error =
    Thrown string
  | DatasetMustBeArray
  | MissingOpenAIKey
  | NoContentReceived
  | InvalidJSONFormat "issue list"
  | ErrorInsertingBrief string
  | ErrorInsertingUserStories string

text \<open>
  The console, one entry per call of \<^verbatim>\<open>console.log\<close> (\<open>Log\<close>) or \<^verbatim>\<open>console.error\<close>
  (\<open>Err\<close>) in the script, with the interpolated values of the message.
\<close>

datatype console_line =
    LogValidating nat
  | ErrBriefFailed nat
  | ErrFormatted "issue list"
  | LogBlank
  | LogValid nat
  | LogInvalid nat
  | LogAllPassed
  | ErrReadingOrParsing js_error

record loop_state =
  validCount :: nat
  errorCount :: nat
  console :: "console_line list"

definition check_brief :: "loop_state \<Rightarrow> nat \<times> 'n json \<Rightarrow> loop_state" where
  \<comment> \<open>the callback of \<^verbatim>\<open>briefs.forEach\<close>\<close>
  "check_brief st ib =
     (case safeParse briefSchema (snd ib) of
        Inr _ \<Rightarrow> st\<lparr>validCount := validCount st + 1\<rparr>
      | Inl issues \<Rightarrow>
          st\<lparr>errorCount := errorCount st + 1,
             console := console st @ [ErrBriefFailed (fst ib + 1), ErrFormatted issues, LogBlank]\<rparr>)"

definition forEach_briefs :: "loop_state \<Rightarrow> 'n json list \<Rightarrow> loop_state" where
  "forEach_briefs st briefs = foldl check_brief st (enumerate 0 briefs)"

record 'l process_result =
  printed :: "'l list"
  exit_code :: nat

definition validateDataset ::
  "(string \<Rightarrow> js_error + string) \<Rightarrow> (string \<Rightarrow> js_error + 'n json) \<Rightarrow> console_line process_result" where
  \<comment> \<open>the script; its parameters are \<^verbatim>\<open>fs.readFileSync\<close> and \<^verbatim>\<open>JSON.parse\<close>\<close>
  "validateDataset readFileSync json_parse =
     (let caught = (\<lambda>err. \<lparr>printed = [ErrReadingOrParsing err], exit_code = 1\<rparr>) in
      case readFileSync DATASET_PATH of
        Inl err \<Rightarrow> caught err
      | Inr raw \<Rightarrow>
          (case json_parse raw of
             Inl err \<Rightarrow> caught err
           | Inr (JArr briefs) \<Rightarrow>
               (let st = forEach_briefs
                           \<lparr>validCount = 0, errorCount = 0,
                            console = [LogValidating (length briefs)]\<rparr> briefs
                in if errorCount st > 0
                   then \<lparr>printed = console st @ [LogValid (validCount st), LogInvalid (errorCount st)],
                         exit_code = 1\<rparr>
                   else \<lparr>printed = console st @ [LogValid (validCount st), LogAllPassed],
                         exit_code = 0\<rparr>)
           | Inr _ \<Rightarrow> caught DatasetMustBeArray))"

text \<open>
  A value fails the schema when \<^verbatim>\<open>safeParse\<close> returns \<^verbatim>\<open>success: false\<close>. The report of
  one element is the three console lines the callback prints for it when it fails.
\<close>

definition fails_schema :: "'n json \<Rightarrow> bool" where
  "fails_schema b = isl (safeParse briefSchema b)"

fun is_error_report :: "console_line \<Rightarrow> bool" where
  "is_error_report (ErrFormatted _) = True"
| "is_error_report _ = False"

definition report_of :: "nat \<times> 'n json \<Rightarrow> console_line list" where
  "report_of ib =
     (case safeParse briefSchema (snd ib) of
        Inr _ \<Rightarrow> []
      | Inl issues \<Rightarrow> [ErrBriefFailed (fst ib + 1), ErrFormatted issues, LogBlank])"

section \<open>The brief schema in the words of the specification\<close>

text \<open>
  The specification's data model: thirteen required fields, four of them enums over
  closed sets, three of them non-empty lists of strings, the others strings. These
  definitions follow the specification, not \<open>briefSchema\<close>; the theorems below compare
  the two.
\<close>

fun is_string :: "'n json \<Rightarrow> bool" where
  "is_string (JStr _) = True"
| "is_string _ = False"

definition required_fields :: "string list" where
  "required_fields =
     [''level'', ''domain'', ''tech_focus'', ''stack'', ''duration'', ''brief'',
      ''business_problem'', ''target_users'', ''goals'', ''deliverables'',
      ''assessment_criteria'', ''company_size'', ''complexity'']"

definition enum_fields :: "(string \<times> string list) list" where
  "enum_fields =
     [(''level'', [''junior'', ''intermediate'', ''senior'']),
      (''tech_focus'', [''frontend'', ''backend'', ''fullstack'']),
      (''company_size'', [''Startup'', ''SME'', ''Large Enterprise'']),
      (''complexity'', [''low'', ''medium'', ''high''])]"

definition string_fields :: "string list" where
  "string_fields =
     [''domain'', ''duration'', ''brief'', ''business_problem'', ''target_users'',
      ''assessment_criteria'']"

definition array_fields :: "string list" where
  "array_fields = [''stack'', ''goals'', ''deliverables'']"

definition has_string :: "(string \<times> 'n json) list \<Rightarrow> string \<Rightarrow> bool" where
  "has_string kvs f = (case map_of kvs f of Some (JStr _) \<Rightarrow> True | _ \<Rightarrow> False)"

definition has_enum :: "(string \<times> 'n json) list \<Rightarrow> string \<times> string list \<Rightarrow> bool" where
  "has_enum kvs fv =
     (case map_of kvs (fst fv) of Some (JStr s) \<Rightarrow> s \<in> set (snd fv) | _ \<Rightarrow> False)"

definition has_strings :: "(string \<times> 'n json) list \<Rightarrow> string \<Rightarrow> bool" where
  "has_strings kvs f =
     (case map_of kvs f of
        Some (JArr xs) \<Rightarrow> xs \<noteq> [] \<and> list_all is_string xs
      | _ \<Rightarrow> False)"

definition well_formed_brief :: "(string \<times> 'n json) list \<Rightarrow> bool" where
  \<comment> \<open>an object that conforms to the brief schema; other keys are not constrained\<close>
  "well_formed_brief kvs \<longleftrightarrow>
     list_all (has_enum kvs) enum_fields
     \<and> list_all (has_string kvs) string_fields
     \<and> list_all (has_strings kvs) array_fields"

definition offending :: "(string \<times> 'n json) list \<Rightarrow> string \<Rightarrow> bool" where
  \<comment> \<open>field \<open>f\<close> of the object is missing, or an enum outside its closed set, or an
      empty \<^verbatim>\<open>stack\<close>, \<^verbatim>\<open>goals\<close> or \<^verbatim>\<open>deliverables\<close> array\<close>
  "offending kvs f \<longleftrightarrow>
     (f \<in> set required_fields \<and> map_of kvs f = None)
     \<or> (case map_of enum_fields f of
           Some vals \<Rightarrow>
             (case map_of kvs f of
                Some (JStr s) \<Rightarrow> s \<notin> set vals
              | Some _ \<Rightarrow> True
              | None \<Rightarrow> False)
         | None \<Rightarrow> False)
     \<or> (f \<in> set array_fields \<and> map_of kvs f = Some (JArr []))"

fun field_value :: "'n json \<Rightarrow> string \<Rightarrow> 'n json option" where
  \<comment> \<open>reading a property of a parsed value: only an object has properties\<close>
  "field_value (JObj kvs) f = map_of kvs f"
| "field_value _ f = None"

text \<open>
  Two objects are the same when they have the same properties with the same values,
  whatever the order of their keys. \<open>restrict_fields ks\<close> keeps the properties named in
  \<open>ks\<close>, in the order of \<open>ks\<close>.
\<close>

definition same_object :: "'n json \<Rightarrow> 'n json \<Rightarrow> bool" where
  "same_object a b =
     (case (a, b) of
        (JObj kvs, JObj kvs') \<Rightarrow>
          list_all (\<lambda>k. map_of kvs k = map_of kvs' k) (map fst kvs @ map fst kvs')
      | _ \<Rightarrow> a = b)"

definition restrict_fields :: "string list \<Rightarrow> (string \<times> 'v) list \<Rightarrow> (string \<times> 'v) list" where
  "restrict_fields ks kvs =
     concat (map (\<lambda>k. case map_of kvs k of Some v \<Rightarrow> [(k, v)] | None \<Rightarrow> []) ks)"

definition sample_brief :: "(string \<times> int json) list" where
  \<comment> \<open>the example brief of the system prompt, with shortened texts\<close>
  "sample_brief =
     [(''level'', JStr ''junior''),
      (''domain'', JStr ''FinTech''),
      (''tech_focus'', JStr ''frontend''),
      (''stack'', JArr [JStr ''React'', JStr ''TypeScript'', JStr ''TailwindCSS'']),
      (''duration'', JStr ''2 weeks''),
      (''brief'', JStr ''Build a responsive dashboard''),
      (''business_problem'', JStr ''Users need intuitive dashboards''),
      (''target_users'', JStr ''End users of a personal finance mobile app''),
      (''goals'', JArr [JStr ''Implement a transaction list with category filters'']),
      (''deliverables'', JArr [JStr ''Fully functional responsive web app'']),
      (''assessment_criteria'', JStr ''Code clarity''),
      (''company_size'', JStr ''Startup''),
      (''complexity'', JStr ''medium'')]"

section \<open>The streaming entry point\<close>

text \<open>
  The source file whose \<^verbatim>\<open>main\<close> streams the completion to the console. The constant text
  of \<^verbatim>\<open>buildSystemPrompt\<close> holds characters outside ASCII and is the parameter
  \<open>systemPrompt\<close>; \<^verbatim>\<open>JSON.stringify\<close> is the parameter \<open>JSON_stringify\<close>. A count is
  printed in decimal, as JavaScript prints a non-negative integer below \<open>10\<^sup>2\<^sup>1\<close>.
\<close>

fun show_nat :: "nat \<Rightarrow> string" where
  "show_nat n =
     (if n < 10 then [''0123456789'' ! n]
      else show_nat (n div 10) @ [''0123456789'' ! (n mod 10)])"

definition buildUserPrompt ::
  "(string list \<Rightarrow> string) \<Rightarrow> string \<Rightarrow> string \<Rightarrow> string \<Rightarrow> string list \<Rightarrow> string \<Rightarrow> nat option \<Rightarrow> string" where
  \<open>buildUserPrompt JSON_stringify level domain tech_focus stack duration count =
     ''Generate '' @ show_nat (case count of None \<Rightarrow> 3 | Some c \<Rightarrow> c)
       @ '' project briefs for :\<newline>''
     @ ''{\<newline>''
     @ ''  "level": "'' @ level @ ''",\<newline>''
     @ ''  "domain": "'' @ domain @ ''",\<newline>''
     @ ''  "tech_focus": "'' @ tech_focus @ ''",\<newline>''
     @ ''  "stack": '' @ JSON_stringify stack @ '',\<newline>''
     @ ''  "duration": "'' @ duration @ ''"\<newline>''
     @ ''}\<newline>''
     @ ''\<newline>''
     @ ''Authoring guidelines:\<newline>''
     @ ''1. Make the business_problem two vivid sentences that expose market tension and stakes.\<newline>''
     @ ''2. Ensure goals are action-oriented, start with strong verbs, and stay within 12 words.\<newline>''
     @ ''3. Deliverables must be tangible outputs teams can hand over at the end of the engagement.\<newline>''
     @ ''4. Assessment criteria should cover success signals for UX, engineering quality, and business alignment.\<newline>''
     @ ''5. Do not copy or lightly edit the example; invent a new scenario within FinTech.\<newline>''
     @ ''\<newline>''
     @ ''Return ONLY the JSON object conforming to the schema.''\<close>

record message =
  role :: string
  content :: string

record request_base =
  model :: string
  temperature :: rat

record chat_request = request_base +
  stream :: bool
  messages :: "message list"

record process =
  env :: "string \<rightharpoonup> string"
  argv :: "string list"

datatype stream_line =
    ErrMissingKey
  | LogStreamingStart
  | StdoutWrite string
  | ErrNoStreamedContent
  | LogStreamingEnd
  | ErrCaught js_error

record stream_state =
  hadContent :: bool
  written :: "stream_line list"

definition on_chunk :: "stream_state \<Rightarrow> string option \<Rightarrow> stream_state" where
  \<comment> \<open>the body of the \<^verbatim>\<open>for await\<close> loop; the argument is
      \<^verbatim>\<open>chunk.choices?.[0]?.delta?.content\<close>\<close>
  "on_chunk st c =
     (case c of
        None \<Rightarrow> st
      | Some text \<Rightarrow>
          if text = [] then st
          else \<lparr>hadContent = True, written = written st @ [StdoutWrite text]\<rparr>)"

definition streaming_request :: "string \<Rightarrow> (string list \<Rightarrow> string) \<Rightarrow> chat_request" where
  \<comment> \<open>the prompts built by \<^verbatim>\<open>main\<close> and the argument of \<^verbatim>\<open>client.chat.completions.create\<close>\<close>
  "streaming_request systemPrompt JSON_stringify =
     (let userPrompt = buildUserPrompt JSON_stringify ''junior'' ''FinTech'' ''frontend''
                         [''React'', ''TypeScript'', ''TailwindCSS''] ''2 weeks'' (Some 3)
      in \<lparr>model = ''gpt-4o-mini'', temperature = 3 / 10, stream = True,
          messages = [\<lparr>role = ''system'', content = systemPrompt\<rparr>,
                      \<lparr>role = ''user'', content = userPrompt\<rparr>]\<rparr>)"

definition main ::
  "string \<Rightarrow> (string list \<Rightarrow> string) \<Rightarrow>
   (string \<Rightarrow> chat_request \<Rightarrow> js_error + string option list \<times> js_error option) \<Rightarrow>
   process \<Rightarrow> stream_line process_result" where
  \<comment> \<open>\<open>create apiKey request\<close> is \<^verbatim>\<open>new OpenAI({apiKey}).chat.completions.create(request)\<close>:
      it throws, or returns the contents of the chunks of the stream and the exception that
      ends the stream, if any\<close>
  "main systemPrompt JSON_stringify create p =
     (let caught = (\<lambda>err. [ErrCaught err]) in
      case env p ''OPENAI_API_KEY'' of
        None \<Rightarrow> \<lparr>printed = [ErrMissingKey], exit_code = 1\<rparr>
      | Some apiKey \<Rightarrow>
          if apiKey = [] then \<lparr>printed = [ErrMissingKey], exit_code = 1\<rparr>
          else
            (case create apiKey (streaming_request systemPrompt JSON_stringify) of
               Inl err \<Rightarrow> \<lparr>printed = caught err, exit_code = 1\<rparr>
             | Inr (chunks, failure) \<Rightarrow>
                 (let st = foldl on_chunk
                             \<lparr>hadContent = False, written = [LogStreamingStart]\<rparr> chunks
                  in case failure of
                       Some err \<Rightarrow> \<lparr>printed = written st @ caught err, exit_code = 1\<rparr>
                     | None \<Rightarrow>
                         \<lparr>printed = written st
                                    @ (if hadContent st then [] else [ErrNoStreamedContent])
                                    @ [LogStreamingEnd],
                          exit_code = 0\<rparr>)))"

text \<open>
  Stand-ins to run \<open>main\<close> on: \<open>stringify_plain\<close> is \<^verbatim>\<open>JSON.stringify\<close> on an array of
  strings that need no escaping, and \<open>echo_user_prompt\<close> is a completion service that
  streams the user messages of the request back, one chunk each.
\<close>

fun join_commas :: "string list \<Rightarrow> string" where
  "join_commas [] = []"
| "join_commas [x] = x"
| "join_commas (x # xs) = x @ '','' @ join_commas xs"

definition stringify_plain :: "string list \<Rightarrow> string" where
  \<open>stringify_plain xs = ''['' @ join_commas (map (\<lambda>x. ''"'' @ x @ ''"'') xs) @ '']''\<close>

definition echo_user_prompt ::
  "string \<Rightarrow> chat_request \<Rightarrow> js_error + string option list \<times> js_error option" where
  "echo_user_prompt apiKey request =
     Inr (map (\<lambda>m. Some (content m)) (filter (\<lambda>m. role m = ''user'') (messages request)), None)"

section \<open>chat.ts\<close>

text \<open>
  \<^verbatim>\<open>process.env\<close> is the field \<open>env\<close> of the process. \<^verbatim>\<open>createOpenAIClient\<close>,
  \<^verbatim>\<open>client.responses.create\<close> and \<^verbatim>\<open>JSON.parse\<close> belong to code outside the
  repository's sources and are parameters. A string is falsy when it is absent or empty.
\<close>

definition getOpenAIClient :: "(string \<Rightarrow> 'c) \<Rightarrow> process \<Rightarrow> js_error + 'c" where
  "getOpenAIClient createOpenAIClient p =
     (case env p ''OPENAI_API_KEY'' of
        None \<Rightarrow> Inl MissingOpenAIKey
      | Some apiKey \<Rightarrow>
          if apiKey = [] then Inl MissingOpenAIKey else Inr (createOpenAIClient apiKey))"

record response_payload = request_base +
  input :: "message list"

record response =
  output_text :: "string option"

definition getResponseFromOpenAI ::
  "(response_payload \<Rightarrow> js_error + response) \<Rightarrow> (string \<Rightarrow> js_error + 'n json) \<Rightarrow>
   string \<Rightarrow> string \<Rightarrow> string \<Rightarrow> js_error + 'n json" where
  "getResponseFromOpenAI client json_parse userPrompt systemPrompt targetModel =
     (let responsePayload =
            \<lparr>model = targetModel, temperature = 3 / 10,
             input = [\<lparr>role = ''system'', content = systemPrompt\<rparr>,
                      \<lparr>role = ''user'', content = userPrompt\<rparr>]\<rparr>
      in case client responsePayload of
           Inl err \<Rightarrow> Inl err
         | Inr response \<Rightarrow>
             (case output_text response of
                None \<Rightarrow> Inl NoContentReceived
              | Some rawJson \<Rightarrow>
                  if rawJson = [] then Inl NoContentReceived else json_parse rawJson))"

text \<open>
  \<^verbatim>\<open>chat.ts\<close> imports \<^verbatim>\<open>briefSchema\<close> from a module that is not among the sources; the
  schema is the parameter \<open>schema\<close> of \<open>parseSingleBrief\<close> and \<open>parseBriefs\<close>.
  \<open>map_throwing\<close> is \<^verbatim>\<open>Array.prototype.map\<close> with a callback that may throw: the
  first exception leaves the loop.
\<close>

definition parseSingleBrief :: "'n zod_type \<Rightarrow> 'n json \<Rightarrow> js_error + 'n json" where
  "parseSingleBrief schema json =
     (case safeParse schema json of
        Inl issues \<Rightarrow> Inl (InvalidJSONFormat issues)
      | Inr data \<Rightarrow> Inr data)"

fun map_throwing :: "('a \<Rightarrow> js_error + 'b) \<Rightarrow> 'a list \<Rightarrow> js_error + 'b list" where
  "map_throwing f [] = Inr []"
| "map_throwing f (x # xs) =
     (case f x of
        Inl err \<Rightarrow> Inl err
      | Inr y \<Rightarrow> (case map_throwing f xs of
                    Inl err \<Rightarrow> Inl err
                  | Inr ys \<Rightarrow> Inr (y # ys)))"

definition parseBriefs :: "'n zod_type \<Rightarrow> 'n json \<Rightarrow> js_error + 'n json list" where
  "parseBriefs schema json =
     (case json of
        JArr elems \<Rightarrow> map_throwing (parseSingleBrief schema) elems
      | _ \<Rightarrow> (case parseSingleBrief schema json of
                Inl err \<Rightarrow> Inl err
              | Inr b \<Rightarrow> Inr [b]))"

text \<open>
  Modelled from the spec: the type \<^verbatim>\<open>ProjectBrief\<close> that \<^verbatim>\<open>chat.ts\<close> imports from the
  missing module \<^verbatim>\<open>schema/brief\<close>: the thirteen fields and a nested list of user stories
  (title, description, acceptance criteria, priority, complexity). The types of the
  user-story fields are not given; they are the type parameter \<open>'v\<close>. The field
  \<^verbatim>\<open>complexity\<close> of a story is \<open>story_complexity\<close> here, the field \<^verbatim>\<open>id\<close> of a stored
  row is \<open>row_id\<close>.
\<close>

record brief_fields =
  level :: string
  domain :: string
  tech_focus :: string
  stack :: "string list"
  duration :: string
  brief :: string
  business_problem :: string
  target_users :: string
  goals :: "string list"
  deliverables :: "string list"
  assessment_criteria :: string
  company_size :: string
  complexity :: string

record 'v story_fields =
  title :: 'v
  description :: 'v
  acceptance_criteria :: 'v
  priority :: 'v
  story_complexity :: 'v

record 'v ProjectBrief = brief_fields +
  user_stories :: "'v story_fields list"

record 'e brief_row = brief_fields +
  embedding :: "'e list"

record ('e, 'id) brief_data =
  row_id :: 'id
  columns :: "'e brief_row"

record ('v, 'id) user_story_row = "'v story_fields" +
  brief_id :: 'id
  story_order :: nat

text \<open>
  The datastore client: each insert takes the state of the datastore and returns the
  response with the state it leaves. The response of the insert into \<^verbatim>\<open>briefs\<close> is
  \<open>Inl message\<close> for \<^verbatim>\<open>error\<close> or \<open>Inr data\<close> for the row selected back; the response of
  the insert into \<^verbatim>\<open>brief_user_stories\<close> is the message of \<^verbatim>\<open>error\<close>, if any.
\<close>

record ('db, 'e, 'id, 'v) supabase_client =
  insert_briefs :: "'e brief_row \<Rightarrow> 'db \<Rightarrow> (string + ('e, 'id) brief_data) \<times> 'db"
  insert_brief_user_stories :: "('v, 'id) user_story_row list \<Rightarrow> 'db \<Rightarrow> string option \<times> 'db"

record ('db, 'id) world =
  datastore :: 'db
  logged_ids :: "'id list"

record ('e, 'id) insertion_summary =
  inserted_brief :: "('e, 'id) brief_data"
  userStoriesInserted :: nat

definition briefRow :: "'v ProjectBrief \<Rightarrow> 'e list \<Rightarrow> 'e brief_row" where
  "briefRow b emb =
     \<lparr>level = level b, domain = domain b, tech_focus = tech_focus b, stack = stack b,
      duration = duration b, brief = brief b, business_problem = business_problem b,
      target_users = target_users b, goals = goals b, deliverables = deliverables b,
      assessment_criteria = assessment_criteria b, company_size = company_size b,
      complexity = complexity b, embedding = emb\<rparr>"

definition userStoryRows :: "'id \<Rightarrow> 'v story_fields list \<Rightarrow> ('v, 'id) user_story_row list" where
  "userStoryRows briefId stories =
     map (\<lambda>(index, story).
            \<lparr>title = title story, description = description story,
             acceptance_criteria = acceptance_criteria story, priority = priority story,
             story_complexity = story_complexity story,
             brief_id = briefId, story_order = index + 1\<rparr>)
         (enumerate 0 stories)"

definition insertBriefInDB ::
  "('db, 'e, 'id, 'v) supabase_client \<Rightarrow> 'v ProjectBrief \<Rightarrow> 'e list \<Rightarrow> ('db, 'id) world \<Rightarrow>
   (js_error + ('e, 'id) insertion_summary) \<times> ('db, 'id) world" where
  "insertBriefInDB supabaseClient b emb w =
     (case insert_briefs supabaseClient (briefRow b emb) (datastore w) of
        (Inl message, db1) \<Rightarrow> (Inl (ErrorInsertingBrief message), w\<lparr>datastore := db1\<rparr>)
      | (Inr data, db1) \<Rightarrow>
          (let briefId = row_id data;
               rows = userStoryRows briefId (user_stories b)
           in case insert_brief_user_stories supabaseClient rows db1 of
                (Some message, db2) \<Rightarrow>
                  (Inl (ErrorInsertingUserStories message), w\<lparr>datastore := db2\<rparr>)
              | (None, db2) \<Rightarrow>
                  (Inr \<lparr>inserted_brief = data, userStoriesInserted = length rows\<rparr>,
                   \<lparr>datastore = db2, logged_ids = logged_ids w @ [briefId]\<rparr>)))"

text \<open>
  A datastore to run \<open>insertBriefInDB\<close> on: two tables in memory. An insert appends its
  rows, or fails with the given message and leaves the tables as they are; the identifier
  of a new brief is given.
\<close>

record ('e, 'id, 'v) tables =
  briefs_table :: "('e, 'id) brief_data list"
  brief_user_stories_table :: "('v, 'id) user_story_row list"

definition memory_client ::
  "string option \<Rightarrow> string option \<Rightarrow> 'id \<Rightarrow> (('e, 'id, 'v) tables, 'e, 'id, 'v) supabase_client" where
  "memory_client fail_briefs fail_stories new_id =
     \<lparr>insert_briefs = (\<lambda>row db.
          case fail_briefs of
            Some message \<Rightarrow> (Inl message, db)
          | None \<Rightarrow>
              (Inr \<lparr>row_id = new_id, columns = row\<rparr>,
               db\<lparr>briefs_table := briefs_table db @ [\<lparr>row_id = new_id, columns = row\<rparr>]\<rparr>)),
      insert_brief_user_stories = (\<lambda>rows db.
          case fail_stories of
            Some message \<Rightarrow> (Some message, db)
          | None \<Rightarrow>
              (None, db\<lparr>brief_user_stories_table := brief_user_stories_table db @ rows\<rparr>))\<rparr>"

definition sample_project_brief :: "string ProjectBrief" where
  "sample_project_brief =
     \<lparr>level = ''junior'', domain = ''FinTech'', tech_focus = ''frontend'',
      stack = [''React''], duration = ''2 weeks'', brief = ''Build a dashboard'',
      business_problem = ''Users need dashboards'', target_users = ''End users'',
      goals = [''List transactions''], deliverables = [''Web app''],
      assessment_criteria = ''Code clarity'', company_size = ''Startup'',
      complexity = ''medium'',
      user_stories =
        [\<lparr>title = ''Filter'', description = ''Filter transactions'',
          acceptance_criteria = ''Filters apply'', priority = ''high'',
          story_complexity = ''low''\<rparr>,
         \<lparr>title = ''Chart'', description = ''Monthly chart'',
          acceptance_criteria = ''Chart renders'', priority = ''medium'',
          story_complexity = ''medium''\<rparr>]\<rparr>"

definition empty_world :: "((int, nat, string) tables, nat) world" where
  "empty_world =
     \<lparr>datastore = \<lparr>briefs_table = [], brief_user_stories_table = []\<rparr>, logged_ids = []\<rparr>"

text \<open>
  Stand-ins for the file system, \<^verbatim>\<open>JSON.parse\<close> and the completion service, each with a
  fixed answer.
\<close>

definition read_as :: "string \<Rightarrow> string \<Rightarrow> js_error + string" where
  "read_as text file = Inr text"

definition parse_as :: "'n json \<Rightarrow> string \<Rightarrow> js_error + 'n json" where
  "parse_as j raw = Inr j"

definition respond_with :: "string option \<Rightarrow> response_payload \<Rightarrow> js_error + response" where
  "respond_with text payload = Inr \<lparr>output_text = text\<rparr>"

section \<open>The validation loop of validateDataset.ts\<close>

lemma loop_errorCount:
  "errorCount (foldl check_brief st (enumerate n bs))
     = errorCount st + length (filter fails_schema bs)"
  by (induction bs arbitrary: st n)
     (auto simp: check_brief_def fails_schema_def split: sum.splits)

lemma loop_validCount:
  "validCount (foldl check_brief st (enumerate n bs))
     = validCount st + length (filter (\<lambda>b. \<not> fails_schema b) bs)"
  by (induction bs arbitrary: st n)
     (auto simp: check_brief_def fails_schema_def split: sum.splits)

lemma loop_console:
  "console (foldl check_brief st (enumerate n bs))
     = console st @ concat (map report_of (enumerate n bs))"
  by (induction bs arbitrary: st n)
     (auto simp: check_brief_def report_of_def split: sum.splits)

lemma reports_count:
  "length (filter is_error_report (concat (map report_of (enumerate n bs))))
     = length (filter fails_schema bs)"
  by (induction bs arbitrary: n)
     (auto simp: report_of_def fails_schema_def split: sum.splits)

lemma passing_is_rest:
  "length (filter (\<lambda>b. \<not> P b) bs) = length bs - length (filter P bs)"
  by (induction bs) (auto simp: Suc_diff_le)

lemma sample_brief_accepted:
  "safeParse briefSchema (JObj sample_brief) = Inr (JObj sample_brief)"
  by (simp add: safeParse_def briefSchema_def brief_shape_def z_object_def z_enum_def
        z_string_def z_array_min_def sample_brief_def)

lemma number_rejected:
  "safeParse briefSchema (JNum n) = Inl [\<lparr>code = invalid_type, path = []\<rparr>]"
  by (simp add: safeParse_def briefSchema_def z_object_def)

lemma null_rejected:
  "safeParse briefSchema JNull = Inl [\<lparr>code = invalid_type, path = []\<rparr>]"
  by (simp add: safeParse_def briefSchema_def z_object_def)

lemma validateDataset_array:
  assumes "readFileSync DATASET_PATH = Inr raw" and "json_parse raw = Inr (JArr briefs)"
  shows "validateDataset readFileSync json_parse =
           (let N = length briefs; K = length (filter fails_schema briefs)
            in \<lparr>printed = [LogValidating N] @ concat (map report_of (enumerate 0 briefs))
                            @ [LogValid (N - K)]
                            @ (if 0 < K then [LogInvalid K] else [LogAllPassed]),
                exit_code = (if 0 < K then 1 else 0)\<rparr>)"
  using assms unfolding validateDataset_def forEach_briefs_def
  by (simp add: Let_def loop_errorCount loop_validCount loop_console passing_is_rest)

lemma validateDataset_array_reports:
  assumes "readFileSync DATASET_PATH = Inr raw" and "json_parse raw = Inr (JArr briefs)"
  shows "set (concat (map report_of (enumerate 0 briefs)))
           \<subseteq> set (printed (validateDataset readFileSync json_parse))"
proof -
  note v = validateDataset_array
             [where readFileSync = readFileSync and raw = raw and json_parse = json_parse
                and briefs = briefs, OF assms]
  show ?thesis unfolding v Let_def by auto
qed

text \<open>
  C1. In batch-validation mode, when the dataset file parses to an array of N values of
  which K fail the brief schema, the loop ends with \<^verbatim>\<open>errorCount\<close> K and \<^verbatim>\<open>validCount\<close>
  N - K, and the validator prints the report of each failing brief, K formatted errors in
  all, then that N - K briefs are valid and, when K is not 0, that K are invalid; it exits
  with status 1 when K is not 0 and with status 0 otherwise.
\<close>

theorem batch_validation_counts:
  fixes briefs :: "'n json list"
  assumes "readFileSync DATASET_PATH = Inr raw" and "json_parse raw = Inr (JArr briefs)"
  shows "(let st = forEach_briefs
                     \<lparr>validCount = 0, errorCount = 0,
                      console = [LogValidating (length briefs)]\<rparr> briefs;
              N = length briefs;
              K = length (filter fails_schema briefs);
              r = validateDataset readFileSync json_parse
          in errorCount st = K \<and> validCount st = N - K
             \<and> length (filter is_error_report (console st)) = K
             \<and> printed r = [LogValidating N] @ concat (map report_of (enumerate 0 briefs))
                            @ [LogValid (N - K)]
                            @ (if 0 < K then [LogInvalid K] else [LogAllPassed])
             \<and> length (filter is_error_report (printed r)) = K
             \<and> exit_code r = (if 0 < K then 1 else 0))"
proof -
  note v = validateDataset_array
             [where readFileSync = readFileSync and raw = raw and json_parse = json_parse
                and briefs = briefs, OF assms]
  show ?thesis
    unfolding v forEach_briefs_def Let_def
    by (simp add: loop_errorCount loop_validCount loop_console reports_count passing_is_rest)
qed

theorem batch_validation_counts_witness:
  "validateDataset (read_as ''[{}, 1, null]'') (parse_as (JArr [JObj sample_brief, JNum 1, JNull]))
     = \<lparr>printed =
          [LogValidating 3,
           ErrBriefFailed 2, ErrFormatted [\<lparr>code = invalid_type, path = []\<rparr>], LogBlank,
           ErrBriefFailed 3, ErrFormatted [\<lparr>code = invalid_type, path = []\<rparr>], LogBlank,
           LogValid 1, LogInvalid 2],
        exit_code = 1\<rparr>
   \<and> length (filter fails_schema [JObj sample_brief, JNum 1, JNull]) = 2"
proof -
  have h1: "read_as ''[{}, 1, null]'' DATASET_PATH = Inr ''[{}, 1, null]''"
    by (simp add: read_as_def)
  have h2: "parse_as (JArr [JObj sample_brief, JNum 1, JNull]) ''[{}, 1, null]''
              = Inr (JArr [JObj sample_brief, JNum 1, JNull])"
    by (simp add: parse_as_def)
  have k: "length (filter fails_schema [JObj sample_brief, JNum 1, JNull]) = 2"
    by (simp add: fails_schema_def sample_brief_accepted number_rejected null_rejected)
  have reports: "concat (map report_of (enumerate 0 [JObj sample_brief, JNum 1, JNull]))
          = [ErrBriefFailed 2, ErrFormatted [\<lparr>code = invalid_type, path = []\<rparr>], LogBlank,
             ErrBriefFailed 3, ErrFormatted [\<lparr>code = invalid_type, path = []\<rparr>], LogBlank]"
    by (simp add: report_of_def sample_brief_accepted number_rejected null_rejected
          numeral_2_eq_2 numeral_3_eq_3)
  from batch_validation_counts
         [where readFileSync = "read_as ''[{}, 1, null]''" and raw = "''[{}, 1, null]''"
            and json_parse = "parse_as (JArr [JObj sample_brief, JNum 1, JNull])"
            and briefs = "[JObj sample_brief, JNum 1, JNull]", OF h1 h2]
  have "printed (validateDataset (read_as ''[{}, 1, null]'')
                   (parse_as (JArr [JObj sample_brief, JNum 1, JNull])))
          = [LogValidating 3,
             ErrBriefFailed 2, ErrFormatted [\<lparr>code = invalid_type, path = []\<rparr>], LogBlank,
             ErrBriefFailed 3, ErrFormatted [\<lparr>code = invalid_type, path = []\<rparr>], LogBlank,
             LogValid 1, LogInvalid 2]"
    and "exit_code (validateDataset (read_as ''[{}, 1, null]'')
                   (parse_as (JArr [JObj sample_brief, JNum 1, JNull]))) = 1"
    unfolding Let_def k reports by simp_all
  with k show ?thesis by (cases "validateDataset (read_as ''[{}, 1, null]'')
                   (parse_as (JArr [JObj sample_brief, JNum 1, JNull]))") simp
qed

section \<open>The brief schema\<close>

lemma merge_strings:
  "list_all is_string xs \<Longrightarrow>
   merge_results (map (\<lambda>(i, x). (i, z_string (p @ [Idx i]) (Some x))) (enumerate n xs))
     = Inr (enumerate n xs)"
proof (induction xs arbitrary: n)
  case Nil
  then show ?case by simp
next
  case (Cons x xs)
  then obtain s where "x = JStr s" by (cases x) auto
  with Cons show ?case by (simp add: z_string_def)
qed

lemma array_of_strings_ok:
  "list_all is_string xs \<Longrightarrow> xs \<noteq> [] \<Longrightarrow>
   z_array_min z_string (Suc 0) p (Some (JArr xs)) = Inr (JArr xs)"
  by (cases xs) (simp_all add: z_array_min_def merge_strings del: enumerate_simps)

lemma has_stringD: "has_string kvs f \<Longrightarrow> \<exists>s. map_of kvs f = Some (JStr s)"
  by (auto simp: has_string_def split: option.splits json.splits)

lemma has_enumD:
  "has_enum kvs (f, vals) \<Longrightarrow> \<exists>s. map_of kvs f = Some (JStr s) \<and> s \<in> set vals"
  by (auto simp: has_enum_def split: option.splits json.splits)

lemma has_stringsD:
  "has_strings kvs f \<Longrightarrow> \<exists>xs. map_of kvs f = Some (JArr xs) \<and> xs \<noteq> [] \<and> list_all is_string xs"
  by (auto simp: has_strings_def split: option.splits json.splits)

lemma well_formed_parse:
  assumes "well_formed_brief kvs"
  shows "safeParse briefSchema (JObj kvs) = Inr (JObj (restrict_fields required_fields kvs))"
proof -
  from assms have e: "has_enum kvs (''level'', [''junior'', ''intermediate'', ''senior''])"
    "has_enum kvs (''tech_focus'', [''frontend'', ''backend'', ''fullstack''])"
    "has_enum kvs (''company_size'', [''Startup'', ''SME'', ''Large Enterprise''])"
    "has_enum kvs (''complexity'', [''low'', ''medium'', ''high''])"
    and s: "has_string kvs ''domain''" "has_string kvs ''duration''" "has_string kvs ''brief''"
      "has_string kvs ''business_problem''" "has_string kvs ''target_users''"
      "has_string kvs ''assessment_criteria''"
    and a: "has_strings kvs ''stack''" "has_strings kvs ''goals''" "has_strings kvs ''deliverables''"
    by (simp_all add: well_formed_brief_def enum_fields_def string_fields_def array_fields_def)
  from e(1) obtain v1 where v1: "map_of kvs ''level'' = Some (JStr v1)"
     "v1 \<in> set [''junior'', ''intermediate'', ''senior'']" using has_enumD by blast
  from e(2) obtain v2 where v2: "map_of kvs ''tech_focus'' = Some (JStr v2)"
     "v2 \<in> set [''frontend'', ''backend'', ''fullstack'']" using has_enumD by blast
  from e(3) obtain v3 where v3: "map_of kvs ''company_size'' = Some (JStr v3)"
     "v3 \<in> set [''Startup'', ''SME'', ''Large Enterprise'']" using has_enumD by blast
  from e(4) obtain v4 where v4: "map_of kvs ''complexity'' = Some (JStr v4)"
     "v4 \<in> set [''low'', ''medium'', ''high'']" using has_enumD by blast
  from s obtain s1 s2 s3 s4 s5 s6 where ss:
     "map_of kvs ''domain'' = Some (JStr s1)" "map_of kvs ''duration'' = Some (JStr s2)"
     "map_of kvs ''brief'' = Some (JStr s3)" "map_of kvs ''business_problem'' = Some (JStr s4)"
     "map_of kvs ''target_users'' = Some (JStr s5)"
     "map_of kvs ''assessment_criteria'' = Some (JStr s6)"
    using has_stringD by metis
  from a obtain a1 a2 a3 where aa:
     "map_of kvs ''stack'' = Some (JArr a1)" "a1 \<noteq> []" "list_all is_string a1"
     "map_of kvs ''goals'' = Some (JArr a2)" "a2 \<noteq> []" "list_all is_string a2"
     "map_of kvs ''deliverables'' = Some (JArr a3)" "a3 \<noteq> []" "list_all is_string a3"
    using has_stringsD by metis
  have en: "z_enum [''junior'', ''intermediate'', ''senior''] [Key ''level''] (Some (JStr v1)) = Inr (JStr v1)"
    "z_enum [''frontend'', ''backend'', ''fullstack''] [Key ''tech_focus''] (Some (JStr v2)) = Inr (JStr v2)"
    "z_enum [''Startup'', ''SME'', ''Large Enterprise''] [Key ''company_size''] (Some (JStr v3)) = Inr (JStr v3)"
    "z_enum [''low'', ''medium'', ''high''] [Key ''complexity''] (Some (JStr v4)) = Inr (JStr v4)"
    using v1(2) v2(2) v3(2) v4(2) unfolding z_enum_def by simp_all
  show ?thesis
    unfolding safeParse_def briefSchema_def brief_shape_def z_object_def required_fields_def
      restrict_fields_def
    by (simp add: v1(1) v2(1) v3(1) v4(1) ss aa en array_of_strings_ok z_string_def)
qed

lemma map_of_restrict:
  "map_of (restrict_fields ks kvs) k = (if k \<in> set ks then map_of kvs k else None)"
  by (induction ks) (auto simp: restrict_fields_def split: option.splits)

lemma same_object_iff:
  "same_object (JObj a) (JObj b) \<longleftrightarrow> map_of a = map_of b"
proof
  assume s: "same_object (JObj a) (JObj b)"
  show "map_of a = map_of b"
  proof
    fix k
    show "map_of a k = map_of b k"
    proof (cases "k \<in> fst ` set a \<union> fst ` set b")
      case True
      with s show ?thesis by (auto simp: same_object_def list_all_iff)
    next
      case False
      then have "map_of a k = None" "map_of b k = None"
        by (simp_all add: map_of_eq_None_iff)
      then show ?thesis by simp
    qed
  qed
next
  assume "map_of a = map_of b"
  then show "same_object (JObj a) (JObj b)"
    by (simp add: same_object_def list_all_iff)
qed

lemma restrict_same:
  assumes "fst ` set kvs \<subseteq> set ks"
  shows "same_object (JObj (restrict_fields ks kvs)) (JObj kvs)"
proof -
  have "map_of (restrict_fields ks kvs) k = map_of kvs k" for k
  proof (cases "k \<in> set ks")
    case True
    then show ?thesis by (simp add: map_of_restrict)
  next
    case False
    with assms have "k \<notin> fst ` set kvs" by blast
    then have "map_of kvs k = None" by (simp add: map_of_eq_None_iff)
    with False show ?thesis by (simp add: map_of_restrict)
  qed
  then show ?thesis unfolding same_object_iff by blast
qed

lemma merge_has_issue:
  "(k, Inl is0) \<in> set rs \<Longrightarrow> \<exists>is. merge_results rs = Inl is \<and> set is0 \<subseteq> set is"
proof (induction rs)
  case Nil
  then show ?case by simp
next
  case (Cons a rs)
  obtain k' r' where a: "a = (k', r')" by (cases a)
  show ?case
  proof (cases "(k, Inl is0) = a")
    case True
    then show ?thesis using a by (cases "merge_results rs") auto
  next
    case False
    with Cons obtain js where "merge_results rs = Inl js" "set is0 \<subseteq> set js" by auto
    then show ?thesis using a by (cases r') auto
  qed
qed

lemma z_object_field_issue:
  assumes "(k, t) \<in> set shape" and "t (p @ [Key k]) (map_of kvs k) = Inl is0"
  shows "\<exists>is. z_object shape p (Some (JObj kvs)) = Inl is \<and> set is0 \<subseteq> set is"
proof -
  have "(k, Inl is0) \<in> set (map (\<lambda>(k, t). (k, t (p @ [Key k]) (map_of kvs k))) shape)"
    using assms by force
  from merge_has_issue [OF this] show ?thesis
    by (auto simp: z_object_def)
qed

lemma field_issue:
  assumes "(f, t) \<in> set brief_shape"
    and "t [Key f] (map_of kvs f) = Inl [\<lparr>code = c, path = [Key f]\<rparr>]"
  shows "\<exists>issues. safeParse briefSchema (JObj kvs) = Inl issues
                  \<and> (\<exists>i \<in> set issues. path i = [Key f])"
proof -
  from z_object_field_issue [OF assms(1), of "[]" kvs] assms(2)
  obtain js where "z_object brief_shape [] (Some (JObj kvs)) = Inl js"
    "\<lparr>code = c, path = [Key f]\<rparr> \<in> set js" by auto
  then show ?thesis unfolding safeParse_def briefSchema_def by force
qed

lemma required_fields_shape:
  "required_fields = map fst (brief_shape :: (string \<times> 'n zod_type) list)"
  by (simp add: required_fields_def brief_shape_def)

lemma shape_rejects_undefined:
  "list_all (\<lambda>(k, t). \<forall>p. t p None = Inl [\<lparr>code = invalid_type, path = p\<rparr>])
     (brief_shape :: (string \<times> 'n zod_type) list)"
  by (simp add: brief_shape_def z_string_def z_enum_def z_array_min_def)

lemma enum_fields_shape:
  "list_all (\<lambda>(f, vals). (f, z_enum vals) \<in> set (brief_shape :: (string \<times> 'n zod_type) list))
     enum_fields"
  by (simp add: brief_shape_def enum_fields_def)

lemma array_fields_shape:
  "list_all (\<lambda>f. (f, z_array_min z_string 1) \<in> set (brief_shape :: (string \<times> 'n zod_type) list))
     array_fields"
  by (simp add: brief_shape_def array_fields_def)

lemma missing_field_issue:
  fixes kvs :: "(string \<times> 'n json) list"
  assumes "f \<in> set required_fields" and "map_of kvs f = None"
  shows "\<exists>issues. safeParse briefSchema (JObj kvs) = Inl issues
                  \<and> (\<exists>i \<in> set issues. path i = [Key f])"
proof -
  from assms(1) have "f \<in> fst ` set (brief_shape :: (string \<times> 'n zod_type) list)"
    by (metis required_fields_shape list.set_map)
  then obtain t where t: "(f, t) \<in> set (brief_shape :: (string \<times> 'n zod_type) list)"
    by force
  with shape_rejects_undefined
  have "t [Key f] None = Inl [\<lparr>code = invalid_type, path = [Key f]\<rparr>]"
    by (auto simp: list_all_iff)
  with field_issue [OF t, of kvs invalid_type] assms(2) show ?thesis by simp
qed

lemma enum_field_issue:
  fixes kvs :: "(string \<times> 'n json) list"
  assumes "map_of enum_fields f = Some vals" and "map_of kvs f = Some v"
    and "\<forall>s. v = JStr s \<longrightarrow> s \<notin> set vals"
  shows "\<exists>issues. safeParse briefSchema (JObj kvs) = Inl issues
                  \<and> (\<exists>i \<in> set issues. path i = [Key f])"
proof -
  from assms(1) have "(f, vals) \<in> set enum_fields" by (rule map_of_SomeD)
  with enum_fields_shape
  have t: "(f, z_enum vals) \<in> set (brief_shape :: (string \<times> 'n zod_type) list)"
    by (auto simp: list_all_iff)
  from assms(3) obtain c where
    "z_enum vals [Key f] (Some v) = Inl [\<lparr>code = c, path = [Key f]\<rparr>]"
    by (cases v) (auto simp: z_enum_def)
  with field_issue [OF t, of kvs c] assms(2) show ?thesis by simp
qed

lemma empty_array_issue:
  fixes kvs :: "(string \<times> 'n json) list"
  assumes "f \<in> set array_fields" and "map_of kvs f = Some (JArr [])"
  shows "\<exists>issues. safeParse briefSchema (JObj kvs) = Inl issues
                  \<and> (\<exists>i \<in> set issues. path i = [Key f])"
proof -
  from assms(1) array_fields_shape
  have t: "(f, z_array_min z_string 1) \<in> set (brief_shape :: (string \<times> 'n zod_type) list)"
    by (auto simp: list_all_iff)
  have "z_array_min z_string 1 [Key f] (Some (JArr [])) = Inl [\<lparr>code = too_small, path = [Key f]\<rparr>]"
    by (simp add: z_array_min_def)
  with field_issue [OF t, of kvs too_small] assms(2) show ?thesis by simp
qed

lemma offending_object_issue:
  assumes "offending kvs f"
  shows "\<exists>issues. safeParse briefSchema (JObj kvs) = Inl issues
                  \<and> (\<exists>i \<in> set issues. path i = [Key f])"
proof -
  from assms consider
      (missing) "f \<in> set required_fields" "map_of kvs f = None"
    | (enum) vals v where "map_of enum_fields f = Some vals" "map_of kvs f = Some v"
        "\<forall>s. v = JStr s \<longrightarrow> s \<notin> set vals"
    | (empty) "f \<in> set array_fields" "map_of kvs f = Some (JArr [])"
    unfolding offending_def by (fastforce split: option.splits json.splits)
  then show ?thesis
  proof cases
    case missing
    then show ?thesis by (rule missing_field_issue)
  next
    case enum
    then show ?thesis by (rule enum_field_issue)
  next
    case empty
    then show ?thesis by (rule empty_array_issue)
  qed
qed

lemma non_object_root_issue:
  assumes "\<And>kvs. j \<noteq> JObj kvs"
  shows "safeParse briefSchema j = Inl [\<lparr>code = invalid_type, path = []\<rparr>]"
proof (cases j)
  case (JObj kvs)
  with assms show ?thesis by blast
qed (simp_all add: safeParse_def briefSchema_def z_object_def)

text \<open>
  C3. A parsed JSON object with a required field missing, an enum field outside its closed
  set, or an empty \<^verbatim>\<open>stack\<close>, \<^verbatim>\<open>goals\<close> or \<^verbatim>\<open>deliverables\<close> array fails schema validation,
  and the error holds an issue whose path is that field. A parsed JSON value that is not an
  object (null, a boolean, a number, a string, an array) fails schema validation with one
  issue, at the empty path: the error names no field.
\<close>

theorem offending_field_named:
  fixes j :: "'n json"
  shows "(\<forall>kvs f. j = JObj kvs \<and> offending kvs f \<longrightarrow>
            (\<exists>issues. safeParse briefSchema j = Inl issues
                      \<and> (\<exists>i \<in> set issues. path i = [Key f])))
         \<and> ((\<forall>kvs. j \<noteq> JObj kvs) \<longrightarrow>
              safeParse briefSchema j = Inl [\<lparr>code = invalid_type, path = []\<rparr>])"
  using offending_object_issue non_object_root_issue by blast

theorem offending_field_named_witness:
  "offending [(''level'', JStr ''expert'') :: string \<times> int json] ''level''
   \<and> (\<exists>issues. safeParse briefSchema (JObj [(''level'', JStr ''expert'') :: string \<times> int json])
                   = Inl issues
                 \<and> (\<exists>i \<in> set issues. path i = [Key ''level'']))
   \<and> (\<forall>kvs. (JBool True :: int json) \<noteq> JObj kvs)
   \<and> safeParse briefSchema (JBool True :: int json) = Inl [\<lparr>code = invalid_type, path = []\<rparr>]"
proof -
  have o: "offending [(''level'', JStr ''expert'') :: string \<times> int json] ''level''"
    by (simp add: offending_def enum_fields_def required_fields_def array_fields_def)
  have n: "\<forall>kvs. (JBool True :: int json) \<noteq> JObj kvs" by simp
  from offending_field_named [of "JObj [(''level'', JStr ''expert'') :: string \<times> int json]"] o
  have a: "\<exists>issues. safeParse briefSchema (JObj [(''level'', JStr ''expert'') :: string \<times> int json])
                   = Inl issues
                 \<and> (\<exists>i \<in> set issues. path i = [Key ''level''])"
    by blast
  from offending_field_named [of "JBool True :: int json"] n
  have b: "safeParse briefSchema (JBool True :: int json) = Inl [\<lparr>code = invalid_type, path = []\<rparr>]"
    by blast
  from o a n b show ?thesis by blast
qed

text \<open>
  The number 1 is a parsed JSON value with no \<^verbatim>\<open>level\<close> field (and no other field). It
  fails validation with a single issue, whose path is empty and not the missing field.
\<close>

theorem non_object_names_no_field:
  "field_value (JNum 1 :: int json) ''level'' = None
   \<and> safeParse briefSchema (JNum 1 :: int json) = Inl [\<lparr>code = invalid_type, path = []\<rparr>]
   \<and> path \<lparr>code = invalid_type, path = []\<rparr> \<noteq> [Key ''level'']"
  by (simp add: safeParse_def briefSchema_def z_object_def)

text \<open>
  C2. An object that conforms to the brief schema passes validation. The validated value
  is the object restricted to the thirteen fields of the schema, with their values as they
  are; it is the same object as the input when the input has no other key.
\<close>

theorem well_formed_brief_restricted:
  assumes "well_formed_brief kvs"
  shows "safeParse briefSchema (JObj kvs) = Inr (JObj (restrict_fields required_fields kvs))
         \<and> (fst ` set kvs \<subseteq> set required_fields \<longrightarrow>
              same_object (JObj (restrict_fields required_fields kvs)) (JObj kvs))"
  using well_formed_parse [OF assms] restrict_same by blast

theorem well_formed_brief_restricted_witness:
  "well_formed_brief sample_brief
   \<and> safeParse briefSchema (JObj sample_brief) = Inr (JObj sample_brief)
   \<and> fst ` set sample_brief \<subseteq> set required_fields
   \<and> same_object (JObj sample_brief) (JObj sample_brief)"
proof -
  have wf: "well_formed_brief sample_brief"
    by (simp add: well_formed_brief_def sample_brief_def enum_fields_def string_fields_def
        array_fields_def has_enum_def has_string_def has_strings_def)
  have r: "restrict_fields required_fields sample_brief = sample_brief"
    by (simp add: restrict_fields_def required_fields_def sample_brief_def)
  have k: "fst ` set sample_brief \<subseteq> set required_fields"
    by (simp add: required_fields_def sample_brief_def)
  from well_formed_brief_restricted [OF wf] wf r k show ?thesis by simp
qed

text \<open>
  The validated value is not the input unchanged when the input has a key the schema does
  not name: here \<^verbatim>\<open>user_stories\<close> is dropped.
\<close>

theorem conforming_brief_with_extra_key_changed:
  "well_formed_brief (sample_brief @ [(''user_stories'', JArr [])])
   \<and> safeParse briefSchema (JObj (sample_brief @ [(''user_stories'', JArr [])]))
       = Inr (JObj sample_brief)
   \<and> \<not> same_object (JObj sample_brief) (JObj (sample_brief @ [(''user_stories'', JArr [])]))"
proof (intro conjI)
  show "well_formed_brief (sample_brief @ [(''user_stories'', JArr [])])"
    by (simp add: well_formed_brief_def sample_brief_def enum_fields_def string_fields_def
        array_fields_def has_enum_def has_string_def has_strings_def)
  show "safeParse briefSchema (JObj (sample_brief @ [(''user_stories'', JArr [])]))
          = Inr (JObj sample_brief)"
    by (simp add: safeParse_def briefSchema_def brief_shape_def z_object_def z_enum_def
        z_string_def z_array_min_def sample_brief_def)
  show "\<not> same_object (JObj sample_brief) (JObj (sample_brief @ [(''user_stories'', JArr [])]))"
    by (simp add: same_object_def sample_brief_def)
qed

lemma merge_results_keys:
  "merge_results rs = Inr out \<Longrightarrow> map fst out = map fst rs"
proof (induction rs arbitrary: out)
  case Nil
  then show ?case by simp
next
  case (Cons a rs)
  obtain k r where a: "a = (k, r)" by (cases a)
  with Cons show ?case
    by (auto split: sum.splits)
qed

lemma z_object_keys:
  assumes "z_object shape p d = Inr v"
  shows "\<exists>out. v = JObj out \<and> map fst out = map fst shape"
proof -
  from assms obtain kvs where d: "d = Some (JObj kvs)"
    by (auto simp: z_object_def split: option.splits json.splits)
  with assms obtain out where
    m: "merge_results (map (\<lambda>(k, t). (k, t (p @ [Key k]) (map_of kvs k))) shape) = Inr out"
    and v: "v = JObj out"
    by (auto simp: z_object_def split: sum.splits)
  from merge_results_keys [OF m] have "map fst out = map fst shape"
    by (simp add: comp_def case_prod_unfold)
  with v show ?thesis by blast
qed

lemma z_object_cong:
  assumes "\<And>k. k \<in> fst ` set shape \<Longrightarrow> map_of kvs k = map_of kvs' k"
  shows "z_object shape p (Some (JObj kvs)) = z_object shape p (Some (JObj kvs'))"
proof -
  have eq: "map (\<lambda>(k, t). (k, t (p @ [Key k]) (map_of kvs k))) shape
      = map (\<lambda>(k, t). (k, t (p @ [Key k]) (map_of kvs' k))) shape"
    using assms by (intro map_cong refl) force
  show ?thesis by (simp only: z_object_def option.case json.case eq)
qed

lemma user_stories_not_required: "''user_stories'' \<notin> set required_fields"
  by (simp add: required_fields_def)

text \<open>
  C6. The brief schema of \<^verbatim>\<open>validateDataset.ts\<close> has no \<^verbatim>\<open>user_stories\<close> field: a brief is
  accepted or rejected whatever its \<^verbatim>\<open>user_stories\<close> property is, and the validated value
  of every accepted brief has the thirteen fields of the schema and no \<^verbatim>\<open>user_stories\<close>.
\<close>

theorem schema_ignores_user_stories:
  fixes kvs :: "(string \<times> 'n json) list"
  shows "safeParse briefSchema (JObj ((''user_stories'', x) # kvs)) = safeParse briefSchema (JObj kvs)
         \<and> (\<forall>j v. safeParse briefSchema (j :: 'n json) = Inr v \<longrightarrow>
               (\<exists>out. v = JObj out \<and> map fst out = required_fields
                      \<and> map_of out ''user_stories'' = None))"
proof (intro conjI allI impI)
  have "map_of ((''user_stories'', x) # kvs) k = map_of kvs k"
    if "k \<in> fst ` set (brief_shape :: (string \<times> 'n zod_type) list)" for k
  proof -
    from that have "k \<in> set required_fields"
      by (metis required_fields_shape list.set_map)
    with user_stories_not_required have "k \<noteq> ''user_stories''" by blast
    then show ?thesis by simp
  qed
  then show "safeParse briefSchema (JObj ((''user_stories'', x) # kvs)) = safeParse briefSchema (JObj kvs)"
    unfolding safeParse_def briefSchema_def by (rule z_object_cong)
next
  fix j v :: "'n json"
  assume "safeParse briefSchema j = Inr v"
  then obtain out where v: "v = JObj out"
    and k: "map fst out = map fst (brief_shape :: (string \<times> 'n zod_type) list)"
    unfolding safeParse_def briefSchema_def using z_object_keys by blast
  from k have k': "map fst out = required_fields" by (metis required_fields_shape)
  then have "''user_stories'' \<notin> fst ` set out"
    using user_stories_not_required by (metis list.set_map)
  then have "map_of out ''user_stories'' = None" by (simp add: map_of_eq_None_iff)
  with v k' show "\<exists>out. v = JObj out \<and> map fst out = required_fields
                      \<and> map_of out ''user_stories'' = None" by blast
qed

theorem schema_ignores_user_stories_witness:
  "safeParse briefSchema (JObj sample_brief) = Inr (JObj sample_brief)
   \<and> map fst sample_brief = required_fields
   \<and> map_of sample_brief ''user_stories'' = None"
proof -
  have p: "safeParse briefSchema (JObj sample_brief) = Inr (JObj sample_brief)"
    by (simp add: safeParse_def briefSchema_def brief_shape_def z_object_def z_enum_def
        z_string_def z_array_min_def sample_brief_def)
  from schema_ignores_user_stories [of "JNull :: int json" "[]"] p
  have "\<exists>out. JObj sample_brief = JObj out \<and> map fst out = required_fields
             \<and> map_of out ''user_stories'' = None" by blast
  with p show ?thesis by simp
qed

text \<open>
  A brief with no \<^verbatim>\<open>user_stories\<close> is accepted.
\<close>

theorem accepted_without_user_stories:
  "safeParse briefSchema (JObj sample_brief) = Inr (JObj sample_brief)
   \<and> map_of sample_brief ''user_stories'' = None"
  by (simp add: safeParse_def briefSchema_def brief_shape_def z_object_def z_enum_def
        z_string_def z_array_min_def sample_brief_def)

section \<open>Batch validation and the generation pipeline\<close>

lemma map_throwing_first_error:
  assumes "\<forall>x \<in> set pre. \<exists>y. f x = Inr y" and "f bad = Inl err"
  shows "map_throwing f (pre @ bad # post) = Inl err"
  using assms by (induction pre) auto

lemma report_in_console:
  assumes "i < length bs" and "safeParse briefSchema (bs ! i) = Inl issues"
  shows "set [ErrBriefFailed (n + i + 1), ErrFormatted issues, LogBlank]
           \<subseteq> set (concat (map report_of (enumerate n bs)))"
proof -
  from assms(1) have "(n + i, bs ! i) \<in> set (enumerate n bs)"
    by (auto simp: in_set_enumerate_eq)
  moreover have "report_of (n + i, bs ! i)
                   = [ErrBriefFailed (n + i + 1), ErrFormatted issues, LogBlank]"
    using assms(2) by (simp add: report_of_def)
  ultimately show ?thesis by force
qed

text \<open>
  C5. When a brief fails validation, the generation pipeline's \<open>parseBriefs\<close> throws the
  error of the first invalid element, whatever the elements after it are; the batch
  validator goes on over the whole array: its loop reports every failing element with its
  position, and what the validator prints for a dataset file that parses to the array
  holds the report of every failing element.
\<close>

theorem batch_continues_pipeline_aborts:
  fixes pre post :: "'n json list"
  assumes "\<forall>b \<in> set pre. \<not> isl (safeParse schema b)"
    and "safeParse schema bad = Inl issues"
  shows "parseBriefs schema (JArr (pre @ bad # post)) = Inl (InvalidJSONFormat issues)
         \<and> (\<forall>i < length (pre @ bad # post). \<forall>issues'.
               safeParse briefSchema ((pre @ bad # post) ! i) = Inl issues' \<longrightarrow>
               set [ErrBriefFailed (i + 1), ErrFormatted issues', LogBlank]
                 \<subseteq> set (console (forEach_briefs st (pre @ bad # post))))
         \<and> (readFileSync DATASET_PATH = Inr raw \<and> json_parse raw = Inr (JArr (pre @ bad # post))
              \<longrightarrow>
              (\<forall>i < length (pre @ bad # post). \<forall>issues'.
                 safeParse briefSchema ((pre @ bad # post) ! i) = Inl issues' \<longrightarrow>
                 set [ErrBriefFailed (i + 1), ErrFormatted issues', LogBlank]
                   \<subseteq> set (printed (validateDataset readFileSync json_parse))))"
proof (intro conjI allI impI)
  have "\<forall>b \<in> set pre. \<exists>y. parseSingleBrief schema b = Inr y"
    using assms(1) by (auto simp: parseSingleBrief_def split: sum.splits)
  moreover have "parseSingleBrief schema bad = Inl (InvalidJSONFormat issues)"
    using assms(2) by (simp add: parseSingleBrief_def)
  ultimately show "parseBriefs schema (JArr (pre @ bad # post)) = Inl (InvalidJSONFormat issues)"
    unfolding parseBriefs_def by (simp add: map_throwing_first_error)
next
  fix i issues'
  assume "i < length (pre @ bad # post)"
    and "safeParse briefSchema ((pre @ bad # post) ! i) = Inl issues'"
  from report_in_console [OF this, of 0]
  show "set [ErrBriefFailed (i + 1), ErrFormatted issues', LogBlank]
          \<subseteq> set (console (forEach_briefs st (pre @ bad # post)))"
    unfolding forEach_briefs_def loop_console by auto
next
  fix i issues'
  assume f: "readFileSync DATASET_PATH = Inr raw \<and> json_parse raw = Inr (JArr (pre @ bad # post))"
    and "i < length (pre @ bad # post)"
    and "safeParse briefSchema ((pre @ bad # post) ! i) = Inl issues'"
  from report_in_console [OF this(2,3), of 0]
  have "set [ErrBriefFailed (i + 1), ErrFormatted issues', LogBlank]
          \<subseteq> set (concat (map report_of (enumerate 0 (pre @ bad # post))))"
    by simp
  moreover from f have "set (concat (map report_of (enumerate 0 (pre @ bad # post))))
          \<subseteq> set (printed (validateDataset readFileSync json_parse))"
    by (intro validateDataset_array_reports [where raw = raw]) simp_all
  ultimately show "set [ErrBriefFailed (i + 1), ErrFormatted issues', LogBlank]
          \<subseteq> set (printed (validateDataset readFileSync json_parse))"
    by (rule subset_trans)
qed

theorem batch_continues_pipeline_aborts_witness:
  "\<not> isl (safeParse briefSchema (JObj sample_brief))
   \<and> safeParse briefSchema (JNum 1 :: int json) = Inl [\<lparr>code = invalid_type, path = []\<rparr>]
   \<and> parseBriefs briefSchema (JArr [JObj sample_brief, JNum 1, JNull])
       = Inl (InvalidJSONFormat [\<lparr>code = invalid_type, path = []\<rparr>])
   \<and> set [ErrBriefFailed 3, ErrFormatted [\<lparr>code = invalid_type, path = []\<rparr>], LogBlank]
       \<subseteq> set (console (forEach_briefs
                           \<lparr>validCount = 0, errorCount = 0, console = [LogValidating 3]\<rparr>
                           [JObj sample_brief, JNum 1, JNull]))
   \<and> set [ErrBriefFailed 3, ErrFormatted [\<lparr>code = invalid_type, path = []\<rparr>], LogBlank]
       \<subseteq> set (printed (validateDataset (read_as ''[{}, 1, null]'')
                           (parse_as (JArr [JObj sample_brief, JNum 1, JNull]))))"
proof -
  have h1: "\<forall>b \<in> set [JObj sample_brief]. \<not> isl (safeParse briefSchema b)"
    by (simp add: sample_brief_accepted)
  have h2: "safeParse briefSchema (JNum 1 :: int json) = Inl [\<lparr>code = invalid_type, path = []\<rparr>]"
    by (rule number_rejected)
  have f: "read_as ''[{}, 1, null]'' DATASET_PATH = Inr ''[{}, 1, null]''
           \<and> parse_as (JArr [JObj sample_brief, JNum 1, JNull]) ''[{}, 1, null]''
               = Inr (JArr ([JObj sample_brief] @ JNum 1 # [JNull]))"
    by (simp add: read_as_def parse_as_def)
  note t = batch_continues_pipeline_aborts
             [OF h1 h2, where post = "[JNull]"
                and st = "\<lparr>validCount = 0, errorCount = 0, console = [LogValidating 3]\<rparr>"
                and readFileSync = "read_as ''[{}, 1, null]''"
                and raw = "''[{}, 1, null]''"
                and json_parse = "parse_as (JArr [JObj sample_brief, JNum 1, JNull])"]
  from t have a: "parseBriefs briefSchema (JArr [JObj sample_brief, JNum 1, JNull])
       = Inl (InvalidJSONFormat [\<lparr>code = invalid_type, path = []\<rparr>])" by simp
  from t [THEN conjunct2, THEN conjunct1, rule_format, of 2 "[\<lparr>code = invalid_type, path = []\<rparr>]"]
  have b: "set [ErrBriefFailed 3, ErrFormatted [\<lparr>code = invalid_type, path = []\<rparr>], LogBlank]
       \<subseteq> set (console (forEach_briefs
                           \<lparr>validCount = 0, errorCount = 0, console = [LogValidating 3]\<rparr>
                           [JObj sample_brief, JNum 1, JNull]))"
    by (simp add: null_rejected)
  from t [THEN conjunct2, THEN conjunct2, rule_format, OF f, of 2 "[\<lparr>code = invalid_type, path = []\<rparr>]"]
  have c: "set [ErrBriefFailed 3, ErrFormatted [\<lparr>code = invalid_type, path = []\<rparr>], LogBlank]
       \<subseteq> set (printed (validateDataset (read_as ''[{}, 1, null]'')
                           (parse_as (JArr [JObj sample_brief, JNum 1, JNull]))))"
    by (simp add: null_rejected)
  from h1 have h1': "\<not> isl (safeParse briefSchema (JObj sample_brief))" by simp
  from h1' h2 a b c show ?thesis by blast
qed

text \<open>
  C9. A value that is not an array: \<open>parseBriefs\<close> validates it as one brief and returns the
  one-element array of its validated value, or throws when it fails the schema; the
  dataset validator rejects it with the error that the dataset must be an array.
\<close>

theorem non_array_single_or_rejected:
  fixes j :: "'n json"
  assumes "\<forall>elems. j \<noteq> JArr elems"
  shows "parseBriefs schema j =
           (case safeParse schema j of
              Inl issues \<Rightarrow> Inl (InvalidJSONFormat issues)
            | Inr data \<Rightarrow> Inr [data])
         \<and> (readFileSync DATASET_PATH = Inr raw \<and> json_parse raw = Inr j \<longrightarrow>
              validateDataset readFileSync json_parse
                = \<lparr>printed = [ErrReadingOrParsing DatasetMustBeArray], exit_code = 1\<rparr>)"
  using assms
  by (cases j) (auto simp: parseBriefs_def parseSingleBrief_def validateDataset_def
                     split: sum.splits)

theorem non_array_single_or_rejected_witness:
  "(\<forall>elems. JObj sample_brief \<noteq> JArr elems)
   \<and> parseBriefs briefSchema (JObj sample_brief) = Inr [JObj sample_brief]
   \<and> validateDataset (read_as ''{}'') (parse_as (JObj sample_brief))
       = \<lparr>printed = [ErrReadingOrParsing DatasetMustBeArray], exit_code = 1\<rparr>"
proof -
  have h: "\<forall>elems. JObj sample_brief \<noteq> JArr elems" by simp
  from non_array_single_or_rejected
         [OF h, where schema = briefSchema and readFileSync = "read_as ''{}''"
            and json_parse = "parse_as (JObj sample_brief)" and raw = "''{}''"]
  show ?thesis
    by (simp add: sample_brief_accepted read_as_def parse_as_def)
qed

section \<open>The completion client\<close>

text \<open>
  C7. \<open>getOpenAIClient\<close> raises an error when the API key is absent from the environment;
  \<open>getResponseFromOpenAI\<close> raises an error when the output text of the response is
  missing or empty, and otherwise returns what \<^verbatim>\<open>JSON.parse\<close> makes of the output text.
\<close>

theorem llm_client_wrapper_errors:
  fixes json_parse :: "string \<Rightarrow> js_error + 'n json"
  assumes "client \<lparr>model = targetModel, temperature = 3 / 10,
                    input = [\<lparr>role = ''system'', content = systemPrompt\<rparr>,
                             \<lparr>role = ''user'', content = userPrompt\<rparr>]\<rparr> = Inr r"
  shows "(env p ''OPENAI_API_KEY'' = None \<or> env p ''OPENAI_API_KEY'' = Some [] \<longrightarrow>
            getOpenAIClient createOpenAIClient p = Inl MissingOpenAIKey)
         \<and> (output_text r = None \<or> output_text r = Some [] \<longrightarrow>
              getResponseFromOpenAI client json_parse userPrompt systemPrompt targetModel
                = Inl NoContentReceived)
         \<and> (\<forall>rawJson. output_text r = Some rawJson \<and> rawJson \<noteq> [] \<longrightarrow>
              getResponseFromOpenAI client json_parse userPrompt systemPrompt targetModel
                = json_parse rawJson)"
  using assms by (auto simp: getOpenAIClient_def getResponseFromOpenAI_def)

theorem llm_client_wrapper_errors_witness:
  "getOpenAIClient id \<lparr>env = Map.empty, argv = []\<rparr> = Inl MissingOpenAIKey
   \<and> getResponseFromOpenAI (respond_with (Some [])) (parse_as (JArr [] :: int json))
        ''user'' ''system'' ''gpt-4o-mini'' = Inl NoContentReceived
   \<and> getResponseFromOpenAI (respond_with (Some ''[]'')) (parse_as (JArr [] :: int json))
        ''user'' ''system'' ''gpt-4o-mini'' = Inr (JArr [])"
proof -
  have r: "respond_with answer
             \<lparr>model = ''gpt-4o-mini'', temperature = 3 / 10,
              input = [\<lparr>role = ''system'', content = ''system''\<rparr>,
                       \<lparr>role = ''user'', content = ''user''\<rparr>]\<rparr> = Inr \<lparr>output_text = answer\<rparr>" for answer
    by (simp add: respond_with_def)
  note t1 = llm_client_wrapper_errors
     [where client = "respond_with (Some [])" and targetModel = "''gpt-4o-mini''"
        and systemPrompt = "''system''" and userPrompt = "''user''"
        and r = "\<lparr>output_text = Some []\<rparr>" and p = "\<lparr>env = Map.empty, argv = []\<rparr>"
        and createOpenAIClient = id and json_parse = "parse_as (JArr [] :: int json)",
      OF r]
  note t2 = llm_client_wrapper_errors
     [where client = "respond_with (Some ''[]'')" and targetModel = "''gpt-4o-mini''"
        and systemPrompt = "''system''" and userPrompt = "''user''"
        and r = "\<lparr>output_text = Some ''[]''\<rparr>" and p = "\<lparr>env = Map.empty, argv = []\<rparr>"
        and createOpenAIClient = id and json_parse = "parse_as (JArr [] :: int json)",
      OF r]
  from t1 t2 show ?thesis by (simp add: parse_as_def)
qed

section \<open>The streaming entry point\<close>

lemma stream_loop:
  "foldl on_chunk st chunks =
     (let texts = filter (\<lambda>t. t \<noteq> []) (List.map_filter id chunks)
      in \<lparr>hadContent = hadContent st \<or> texts \<noteq> [],
          written = written st @ map StdoutWrite texts\<rparr>)"
proof (induction chunks arbitrary: st)
  case Nil
  then show ?case by (simp add: map_filter_simps)
next
  case (Cons c chunks)
  then show ?case
    by (cases c) (auto simp: on_chunk_def map_filter_simps Let_def)
qed

lemma buildUserPrompt_nonempty:
  "buildUserPrompt js l d t s du c \<noteq> []"
  by (simp add: buildUserPrompt_def)

text \<open>
  C8. The streaming entry point does not read the command-line arguments: its request is
  fixed in the source (junior, FinTech, frontend, React/TypeScript/TailwindCSS, 2 weeks,
  3 briefs). It builds the prompt from these values, makes one streamed call, and writes
  the non-empty fragments to the console between the start and end lines; nothing is
  validated or stored.
\<close>

theorem streaming_main_fixed_request:
  "main systemPrompt JSON_stringify create (p\<lparr>argv := args\<rparr>)
     = main systemPrompt JSON_stringify create p
   \<and> streaming_request systemPrompt JSON_stringify
       = \<lparr>model = ''gpt-4o-mini'', temperature = 3 / 10, stream = True,
          messages =
            [\<lparr>role = ''system'', content = systemPrompt\<rparr>,
             \<lparr>role = ''user'',
              content = buildUserPrompt JSON_stringify ''junior'' ''FinTech'' ''frontend''
                          [''React'', ''TypeScript'', ''TailwindCSS''] ''2 weeks'' (Some 3)\<rparr>]\<rparr>
   \<and> (\<forall>apiKey chunks.
         env p ''OPENAI_API_KEY'' = Some apiKey \<and> apiKey \<noteq> []
         \<and> create apiKey (streaming_request systemPrompt JSON_stringify) = Inr (chunks, None)
         \<longrightarrow> main systemPrompt JSON_stringify create p
               = (let texts = filter (\<lambda>t. t \<noteq> []) (List.map_filter id chunks)
                  in \<lparr>printed = [LogStreamingStart] @ map StdoutWrite texts
                                  @ (if texts = [] then [ErrNoStreamedContent] else [])
                                  @ [LogStreamingEnd],
                      exit_code = 0\<rparr>))"
proof (intro conjI allI impI)
  show "main systemPrompt JSON_stringify create (p\<lparr>argv := args\<rparr>)
          = main systemPrompt JSON_stringify create p"
    by (simp add: main_def)
  show "streaming_request systemPrompt JSON_stringify
       = \<lparr>model = ''gpt-4o-mini'', temperature = 3 / 10, stream = True,
          messages =
            [\<lparr>role = ''system'', content = systemPrompt\<rparr>,
             \<lparr>role = ''user'',
              content = buildUserPrompt JSON_stringify ''junior'' ''FinTech'' ''frontend''
                          [''React'', ''TypeScript'', ''TailwindCSS''] ''2 weeks'' (Some 3)\<rparr>]\<rparr>"
    by (simp add: streaming_request_def)
next
  fix apiKey chunks
  assume "env p ''OPENAI_API_KEY'' = Some apiKey \<and> apiKey \<noteq> []
         \<and> create apiKey (streaming_request systemPrompt JSON_stringify) = Inr (chunks, None)"
  then show "main systemPrompt JSON_stringify create p
               = (let texts = filter (\<lambda>t. t \<noteq> []) (List.map_filter id chunks)
                  in \<lparr>printed = [LogStreamingStart] @ map StdoutWrite texts
                                  @ (if texts = [] then [ErrNoStreamedContent] else [])
                                  @ [LogStreamingEnd],
                      exit_code = 0\<rparr>)"
    by (simp add: main_def stream_loop Let_def)
qed

theorem streaming_main_fixed_request_witness:
  "env \<lparr>env = [''OPENAI_API_KEY'' \<mapsto> ''sk-test''], argv = []\<rparr> ''OPENAI_API_KEY'' = Some ''sk-test''
   \<and> echo_user_prompt ''sk-test'' (streaming_request ''You are AegisBrief'' stringify_plain)
       = Inr ([Some (buildUserPrompt stringify_plain ''junior'' ''FinTech'' ''frontend''
                       [''React'', ''TypeScript'', ''TailwindCSS''] ''2 weeks'' (Some 3))], None)
   \<and> main ''You are AegisBrief'' stringify_plain echo_user_prompt
         \<lparr>env = [''OPENAI_API_KEY'' \<mapsto> ''sk-test''], argv = []\<rparr>
       = \<lparr>printed = [LogStreamingStart,
              StdoutWrite (buildUserPrompt stringify_plain ''junior'' ''FinTech'' ''frontend''
                       [''React'', ''TypeScript'', ''TailwindCSS''] ''2 weeks'' (Some 3)),
              LogStreamingEnd],
          exit_code = 0\<rparr>"
proof -
  have e: "echo_user_prompt ''sk-test'' (streaming_request ''You are AegisBrief'' stringify_plain)
       = Inr ([Some (buildUserPrompt stringify_plain ''junior'' ''FinTech'' ''frontend''
                       [''React'', ''TypeScript'', ''TailwindCSS''] ''2 weeks'' (Some 3))], None)"
    by (simp add: echo_user_prompt_def streaming_request_def)
  from streaming_main_fixed_request
         [where systemPrompt = "''You are AegisBrief''" and JSON_stringify = stringify_plain
            and create = echo_user_prompt
            and p = "\<lparr>env = [''OPENAI_API_KEY'' \<mapsto> ''sk-test''], argv = []\<rparr>"] e
  show ?thesis
    by (simp add: map_filter_simps buildUserPrompt_nonempty)
qed

text \<open>
  Run with arguments that ask for a senior HealthTech brief, the prompt that is sent is the
  one for a junior FinTech brief.
\<close>

theorem cli_arguments_not_read:
  "printed (main ''You are AegisBrief'' stringify_plain echo_user_prompt
              \<lparr>env = [''OPENAI_API_KEY'' \<mapsto> ''sk-test''],
               argv = [''--level'', ''senior'', ''--domain'', ''HealthTech'']\<rparr>)
     = [LogStreamingStart,
        StdoutWrite (buildUserPrompt stringify_plain ''junior'' ''FinTech'' ''frontend''
                       [''React'', ''TypeScript'', ''TailwindCSS''] ''2 weeks'' (Some 3)),
        LogStreamingEnd]"
  by (simp add: main_def streaming_request_def echo_user_prompt_def on_chunk_def
        buildUserPrompt_nonempty Let_def)

section \<open>Insertion into the datastore\<close>

text \<open>
  C10. \<open>insertBriefInDB\<close> builds one user-story row per element of \<^verbatim>\<open>brief.user_stories\<close>,
  in order, with \<^verbatim>\<open>story_order\<close> the 1-based position and \<^verbatim>\<open>brief_id\<close> the identifier of
  the row the insert into \<^verbatim>\<open>briefs\<close> returned; these rows are what it inserts, and the
  summary it returns counts as many stories as the brief has.
\<close>

theorem user_story_rows_built:
  fixes supabaseClient :: "('db, 'e, 'id, 'v) supabase_client"
  shows
  "length (userStoryRows briefId stories) = length stories
   \<and> (\<forall>i < length stories.
        userStoryRows briefId stories ! i
          = \<lparr>title = title (stories ! i), description = description (stories ! i),
             acceptance_criteria = acceptance_criteria (stories ! i),
             priority = priority (stories ! i),
             story_complexity = story_complexity (stories ! i),
             brief_id = briefId, story_order = i + 1\<rparr>)
   \<and> (\<forall>data db1. insert_briefs supabaseClient (briefRow b emb) (datastore w) = (Inr data, db1) \<longrightarrow>
        datastore (snd (insertBriefInDB supabaseClient b emb w))
          = snd (insert_brief_user_stories supabaseClient
                   (userStoryRows (row_id data) (user_stories b)) db1)
        \<and> (\<forall>summary. fst (insertBriefInDB supabaseClient b emb w) = Inr summary \<longrightarrow>
              inserted_brief summary = data
              \<and> userStoriesInserted summary = length (user_stories b)))"
  apply (intro conjI allI impI)
  subgoal by (simp add: userStoryRows_def)
  subgoal by (simp add: userStoryRows_def nth_enumerate_eq)
  subgoal by (simp add: insertBriefInDB_def Let_def split: prod.splits option.splits)
  subgoal by (auto simp: insertBriefInDB_def Let_def split: prod.splits option.splits)
  subgoal by (auto simp: insertBriefInDB_def Let_def userStoryRows_def
                   split: prod.splits option.splits)
  done

theorem user_story_rows_built_witness:
  "fst (insertBriefInDB (memory_client None None 7) sample_project_brief [1] empty_world)
     = Inr \<lparr>inserted_brief = \<lparr>row_id = 7, columns = briefRow sample_project_brief [1]\<rparr>,
            userStoriesInserted = 2\<rparr>
   \<and> brief_user_stories_table
       (datastore (snd (insertBriefInDB (memory_client None None 7) sample_project_brief [1]
                          empty_world)))
     = [\<lparr>title = ''Filter'', description = ''Filter transactions'',
         acceptance_criteria = ''Filters apply'', priority = ''high'',
         story_complexity = ''low'', brief_id = 7, story_order = 1\<rparr>,
        \<lparr>title = ''Chart'', description = ''Monthly chart'',
         acceptance_criteria = ''Chart renders'', priority = ''medium'',
         story_complexity = ''medium'', brief_id = 7, story_order = 2\<rparr>]"
proof -
  have a: "insert_briefs (memory_client None None 7 :: ((int, nat, string) tables, int, nat, string) supabase_client)
             (briefRow sample_project_brief [1]) (datastore empty_world)
           = (Inr \<lparr>row_id = 7, columns = briefRow sample_project_brief [1]\<rparr>,
              \<lparr>briefs_table = [\<lparr>row_id = 7, columns = briefRow sample_project_brief [1]\<rparr>],
               brief_user_stories_table = []\<rparr>)"
    by (simp add: memory_client_def empty_world_def)
  have s: "user_stories sample_project_brief =
             [\<lparr>title = ''Filter'', description = ''Filter transactions'',
               acceptance_criteria = ''Filters apply'', priority = ''high'',
               story_complexity = ''low''\<rparr>,
              \<lparr>title = ''Chart'', description = ''Monthly chart'',
               acceptance_criteria = ''Chart renders'', priority = ''medium'',
               story_complexity = ''medium''\<rparr>]"
    by (simp add: sample_project_brief_def)
  note t = user_story_rows_built
     [where supabaseClient = "memory_client None None 7 :: ((int, nat, string) tables, int, nat, string) supabase_client"
        and b = sample_project_brief and emb = "[1]" and w = empty_world
        and briefId = 7 and stories = "user_stories sample_project_brief"]
  from t have rows: "userStoryRows (7::nat) (user_stories sample_project_brief) =
        [\<lparr>title = ''Filter'', description = ''Filter transactions'',
         acceptance_criteria = ''Filters apply'', priority = ''high'',
         story_complexity = ''low'', brief_id = 7, story_order = 1\<rparr>,
        \<lparr>title = ''Chart'', description = ''Monthly chart'',
         acceptance_criteria = ''Chart renders'', priority = ''medium'',
         story_complexity = ''medium'', brief_id = 7, story_order = 2\<rparr>]"
    by (simp add: s userStoryRows_def)
  from t [THEN conjunct2, THEN conjunct2, rule_format, OF a]
  have d: "datastore (snd (insertBriefInDB (memory_client None None 7) sample_project_brief [1]
                          empty_world))
           = snd (insert_brief_user_stories
                    (memory_client None None 7 :: ((int, nat, string) tables, int, nat, string) supabase_client)
                    (userStoryRows 7 (user_stories sample_project_brief))
                    \<lparr>briefs_table = [\<lparr>row_id = 7, columns = briefRow sample_project_brief [1]\<rparr>],
                     brief_user_stories_table = []\<rparr>)"
    by simp
  have r: "fst (insertBriefInDB (memory_client None None 7) sample_project_brief [1] empty_world)
     = Inr \<lparr>inserted_brief = \<lparr>row_id = 7, columns = briefRow sample_project_brief [1]\<rparr>,
            userStoriesInserted = 2\<rparr>"
    by (simp add: insertBriefInDB_def memory_client_def empty_world_def userStoryRows_def s)
  show ?thesis
    using r d rows by (simp add: memory_client_def)
qed

text \<open>
  C4. When the insert into \<^verbatim>\<open>briefs\<close> fails, \<open>insertBriefInDB\<close> raises an error and the
  datastore is as that failed insert left it: no insert into \<^verbatim>\<open>brief_user_stories\<close> is made.
  When the insert into \<^verbatim>\<open>briefs\<close> succeeds and the insert into \<^verbatim>\<open>brief_user_stories\<close>
  fails, an error is raised and the datastore is as the second insert left it: the row of
  the first insert is not taken back.
\<close>

theorem insert_failures_surface:
  fixes supabaseClient :: "('db, 'e, 'id, 'v) supabase_client"
  shows
  "(\<forall>message db1.
      insert_briefs supabaseClient (briefRow b emb) (datastore w) = (Inl message, db1) \<longrightarrow>
      insertBriefInDB supabaseClient b emb w
        = (Inl (ErrorInsertingBrief message), w\<lparr>datastore := db1\<rparr>))
   \<and> (\<forall>data db1 message db2.
        insert_briefs supabaseClient (briefRow b emb) (datastore w) = (Inr data, db1)
        \<and> insert_brief_user_stories supabaseClient
             (userStoryRows (row_id data) (user_stories b)) db1 = (Some message, db2) \<longrightarrow>
        insertBriefInDB supabaseClient b emb w
          = (Inl (ErrorInsertingUserStories message), w\<lparr>datastore := db2\<rparr>))"
  by (simp add: insertBriefInDB_def Let_def)

theorem insert_failures_surface_witness:
  "insertBriefInDB (memory_client (Some ''unavailable'') None 7) sample_project_brief [1]
       empty_world
     = (Inl (ErrorInsertingBrief ''unavailable''), empty_world)
   \<and> insertBriefInDB (memory_client None (Some ''unavailable'') 7) sample_project_brief [1]
       empty_world
     = (Inl (ErrorInsertingUserStories ''unavailable''),
        \<lparr>datastore =
           \<lparr>briefs_table = [\<lparr>row_id = 7, columns = briefRow sample_project_brief [1]\<rparr>],
            brief_user_stories_table = []\<rparr>,
         logged_ids = []\<rparr>)"
proof -
  note t1 = insert_failures_surface
     [where supabaseClient = "memory_client (Some ''unavailable'') None 7"
        and b = sample_project_brief and emb = "[1]" and w = empty_world,
      THEN conjunct1, rule_format,
      of "''unavailable''" "\<lparr>briefs_table = [], brief_user_stories_table = []\<rparr>"]
  note t2 = insert_failures_surface
     [where supabaseClient = "memory_client None (Some ''unavailable'') 7"
        and b = sample_project_brief and emb = "[1]" and w = empty_world,
      THEN conjunct2, rule_format,
      of "\<lparr>row_id = 7, columns = briefRow sample_project_brief [1]\<rparr>"
         "\<lparr>briefs_table = [\<lparr>row_id = 7, columns = briefRow sample_project_brief [1]\<rparr>],
           brief_user_stories_table = []\<rparr>"
         "''unavailable''"
         "\<lparr>briefs_table = [\<lparr>row_id = 7, columns = briefRow sample_project_brief [1]\<rparr>],
           brief_user_stories_table = []\<rparr>"]
  from t1 t2 show ?thesis
    by (simp add: memory_client_def empty_world_def)
qed

end
